theory Spec2Isabelle
  imports Main
begin

section \<open>The component of src/src/App.tsx\<close>

text \<open>
  The repository ships one React component, \<^verbatim>\<open>App\<close>. Its state is the pair of
  \<^verbatim>\<open>useState\<close> cells \<^verbatim>\<open>hasProvider\<close> and \<^verbatim>\<open>wallet\<close>; its code is the mount effect
  \<^verbatim>\<open>getProvider\<close>, the click handler \<^verbatim>\<open>handleConnect\<close> with its helper
  \<^verbatim>\<open>updateWallet\<close>, and the JSX it returns. Everything outside the component (the
  detection library, the injected provider \<^verbatim>\<open>window.ethereum\<close>) is a parameter of the
  model, and every interaction with it is recorded in a log, so that "issues no request"
  is a statement about that log.

  \<open>handleConnect\<close> below is one invocation of the handler from the click to the
  settlement of its request, with nothing in between: the \<^verbatim>\<open>await\<close> is the call of the
  provider's \<^verbatim>\<open>request\<close>, whose answer (resolved or rejected) is a value of a sum type.
  The running component, where other events can arrive while a request is pending, is
  modelled further down by splitting the handler at its \<^verbatim>\<open>await\<close>.
\<close>

subsection \<open>The injected provider\<close>

text \<open>
  A rejected promise is \<open>Inl\<close> of the reason. \<open>TypeError\<close> is what
  \<^verbatim>\<open>window.ethereum.request\<close> throws when \<^verbatim>\<open>window.ethereum\<close> is undefined;
  \<open>ProviderRpcError code message\<close> is a rejection by the provider (code 4001 when the
  user denies access).
\<close>

datatype error = TypeError | ProviderRpcError int string

text \<open>The argument object \<^verbatim>\<open>{ method: ... }\<close> of \<^verbatim>\<open>request\<close>.\<close>

record request_args =
  rpc_method :: string

record provider =
  isMetaMask :: bool
  request :: "request_args \<Rightarrow> error + string list"

text \<open>What the component does to the outside world, in the order it does it.\<close>

datatype effect =
    DetectProvider
  | Request request_args
  | Subscribe string

subsection \<open>State\<close>

text \<open>\<^verbatim>\<open>const initialState = { accounts: [] }\<close>; \<^verbatim>\<open>useState<boolean | null>(null)\<close>.\<close>

record wallet_state =
  accounts :: "string list"

record app =
  hasProvider :: "bool option"
  wallet :: wallet_state

definition initialState :: wallet_state where
  "initialState = \<lparr>accounts = []\<rparr>"

definition App_mounting :: app where
  "App_mounting = \<lparr>hasProvider = None, wallet = initialState\<rparr>"

text \<open>
  The outcome of running one handler: the state it leaves, the interactions it had with
  the outside, and the reason of the rejection when its promise rejects.
\<close>

record 's run =
  after :: 's
  effects :: "effect list"
  thrown :: "error option"

definition idle :: "'s \<Rightarrow> 's run" where
  "idle s = \<lparr>after = s, effects = [], thrown = None\<rparr>"

text \<open>The spec's two wallet states, read off \<^verbatim>\<open>wallet.accounts.length > 0\<close>.\<close>

datatype status = Disconnected | Connected

definition status_of :: "app \<Rightarrow> status" where
  "status_of s = (if length (accounts (wallet s)) > 0 then Connected else Disconnected)"

subsection \<open>The mount effect\<close>

text \<open>
  \<^verbatim>\<open>Boolean(provider)\<close> on the result of \<^verbatim>\<open>detectEthereumProvider\<close>, which is the
  provider object or \<^verbatim>\<open>null\<close>.
\<close>

definition Boolean :: "'a option \<Rightarrow> bool" where
  "Boolean v = (case v of None \<Rightarrow> False | Some _ \<Rightarrow> True)"

text \<open>
  \<^verbatim>\<open>
  const getProvider = async () => {
    const provider = await detectEthereumProvider({ silent: true });
    setHasProvider(Boolean(provider));
  };
  getProvider();
  \<close>
  The argument \<open>detected\<close> is what the detection library resolves with.
\<close>

definition getProvider :: "provider option \<Rightarrow> app \<Rightarrow> app run" where
  "getProvider detected s =
     \<lparr>after = s\<lparr>hasProvider := Some (Boolean detected)\<rparr>,
      effects = [DetectProvider],
      thrown = None\<rparr>"

subsection \<open>Connecting and disconnecting\<close>

text \<open>\<^verbatim>\<open>const updateWallet = (accounts: any) => { setWallet({ accounts }); };\<close>\<close>

definition updateWallet :: "string list \<Rightarrow> app \<Rightarrow> app" where
  "updateWallet accs s = s\<lparr>wallet := \<lparr>accounts = accs\<rparr>\<rparr>"

definition eth_requestAccounts :: request_args where
  "eth_requestAccounts = \<lparr>rpc_method = ''eth_requestAccounts''\<rparr>"

text \<open>
  \<^verbatim>\<open>
  const handleConnect = async () => {
    if (wallet.accounts.length > 0) {
      updateWallet([]);
    } else {
      let accounts = await window.ethereum.request({ method: "eth_requestAccounts" });
      updateWallet(accounts);
    }
  };
  \<close>
  The argument \<open>ethereum\<close> is \<^verbatim>\<open>window.ethereum\<close>. There is no \<^verbatim>\<open>try\<close> around the
  \<^verbatim>\<open>await\<close>: a rejection leaves the function before \<^verbatim>\<open>updateWallet\<close> and becomes the
  rejection of the handler's own promise.
\<close>

definition handleConnect :: "provider option \<Rightarrow> app \<Rightarrow> app run" where
  "handleConnect ethereum s =
     (if length (accounts (wallet s)) > 0 then
        \<lparr>after = updateWallet [] s, effects = [], thrown = None\<rparr>
      else
        (case ethereum of
           None \<Rightarrow> \<lparr>after = s, effects = [], thrown = Some TypeError\<rparr>
         | Some p \<Rightarrow>
             (case request p eth_requestAccounts of
                Inl e \<Rightarrow>
                  \<lparr>after = s, effects = [Request eth_requestAccounts], thrown = Some e\<rparr>
              | Inr accs \<Rightarrow>
                  \<lparr>after = updateWallet accs s, effects = [Request eth_requestAccounts],
                   thrown = None\<rparr>)))"

subsection \<open>The view\<close>

text \<open>
  The children of \<^verbatim>\<open><div className="App">\<close>, in order. A \<^verbatim>\<open>Button\<close> carries its
  label; its \<^verbatim>\<open>onClick\<close> is always \<^verbatim>\<open>handleConnect\<close>.
\<close>

datatype element = Div string | Button string

text \<open>
  JavaScript truthiness of a \<^verbatim>\<open>boolean | null\<close>: \<^verbatim>\<open>null\<close> and \<^verbatim>\<open>false\<close> are falsy,
  and React renders nothing for either as the value of \<^verbatim>\<open>hasProvider && (...)\<close>.
\<close>

fun truthy :: "bool option \<Rightarrow> bool" where
  "truthy None = False"
| "truthy (Some b) = b"

text \<open>
  \<^verbatim>\<open>
  <div>Injected Provider {hasProvider ? "DOES" : "DOES NOT"} Exist</div>
  {hasProvider && (
    <button onClick={handleConnect}>
      {wallet.accounts.length > 0 ? "Disconnect MetaMask" : "Connect MetaMask"}
    </button>
  )}
  {wallet.accounts.length > 0 && (
    <div>Wallet Accounts: {wallet.accounts[0]}</div>
  )}
  \<close>
\<close>

definition render :: "app \<Rightarrow> element list" where
  "render s =
     [Div (''Injected Provider '' @ (if truthy (hasProvider s) then ''DOES'' else ''DOES NOT'')
           @ '' Exist'')]
     @ (if truthy (hasProvider s) then
          [Button (if length (accounts (wallet s)) > 0 then ''Disconnect MetaMask''
                   else ''Connect MetaMask'')]
        else [])
     @ (if length (accounts (wallet s)) > 0 then
          [Div (''Wallet Accounts: '' @ accounts (wallet s) ! 0)]
        else [])"

fun isButton :: "element \<Rightarrow> bool" where
  "isButton (Button l) = True"
| "isButton (Div t) = False"

definition hasButton :: "element list \<Rightarrow> bool" where
  "hasButton v = list_ex isButton v"

subsection \<open>What can happen to the component\<close>

text \<open>
  \<^verbatim>\<open>handleConnect\<close> is an \<^verbatim>\<open>async\<close> function. A click runs it up to its \<^verbatim>\<open>await\<close>; the
  rest runs when the provider answers, and until then the component takes other events,
  further clicks included. The running component is therefore its state together with
  the number of \<^verbatim>\<open>eth_requestAccounts\<close> calls that still wait for their answer.
\<close>

record session =
  ui :: app
  pending :: nat

text \<open>
  The part of \<^verbatim>\<open>handleConnect\<close> before the \<^verbatim>\<open>await\<close>: the test of
  \<^verbatim>\<open>wallet.accounts.length > 0\<close>, then either \<^verbatim>\<open>updateWallet([])\<close>, which ends the
  handler, or the call \<^verbatim>\<open>window.ethereum.request({ method: "eth_requestAccounts" })\<close>,
  which leaves one more request pending (or throws when \<^verbatim>\<open>window.ethereum\<close> is
  undefined).
\<close>

definition handleConnect_click :: "provider option \<Rightarrow> session \<Rightarrow> session run" where
  "handleConnect_click ethereum x =
     (if length (accounts (wallet (ui x))) > 0 then
        \<lparr>after = x\<lparr>ui := updateWallet [] (ui x)\<rparr>, effects = [], thrown = None\<rparr>
      else
        (case ethereum of
           None \<Rightarrow> \<lparr>after = x, effects = [], thrown = Some TypeError\<rparr>
         | Some p \<Rightarrow>
             \<lparr>after = x\<lparr>pending := Suc (pending x)\<rparr>,
              effects = [Request eth_requestAccounts], thrown = None\<rparr>))"

text \<open>
  The part of \<^verbatim>\<open>handleConnect\<close> after the \<^verbatim>\<open>await\<close>, run with the provider's answer:
  \<^verbatim>\<open>updateWallet(accounts)\<close> when the promise resolved, nothing when it rejected. It reads
  nothing of the state: \<^verbatim>\<open>setWallet({ accounts })\<close> replaces the wallet whatever it holds
  by then.
\<close>

definition handleConnect_settle :: "error + string list \<Rightarrow> session \<Rightarrow> session run" where
  "handleConnect_settle answer x =
     (case answer of
        Inl e \<Rightarrow>
          \<lparr>after = x\<lparr>pending := pending x - 1\<rparr>, effects = [], thrown = Some e\<rparr>
      | Inr accs \<Rightarrow>
          \<lparr>after = x\<lparr>ui := updateWallet accs (ui x), pending := pending x - 1\<rparr>,
           effects = [], thrown = None\<rparr>)"

text \<open>
  Four things reach a mounted component: the detection started by the mount effect
  resolves; the user clicks the button, which is possible only while the button is in the
  view; the provider answers a pending \<^verbatim>\<open>eth_requestAccounts\<close> call; the provider emits a
  notification (\<^verbatim>\<open>accountsChanged\<close> with a list of addresses, \<^verbatim>\<open>chainChanged\<close> with a
  chain id). App.tsx never calls \<^verbatim>\<open>window.ethereum.on\<close>, so no function of the component
  is registered for any notification: a notification runs no code of the component.
\<close>

datatype payload = AccountList "string list" | ChainIdHex string

datatype event =
    DetectionResolved "provider option"
  | Click
  | Settled "error + string list"
  | Notification string payload

fun step :: "provider option \<Rightarrow> event \<Rightarrow> session \<Rightarrow> session run" where
  "step ethereum (DetectionResolved detected) x =
     \<lparr>after = x\<lparr>ui := after (getProvider detected (ui x))\<rparr>,
      effects = effects (getProvider detected (ui x)),
      thrown = thrown (getProvider detected (ui x))\<rparr>"
| "step ethereum Click x =
     (if hasButton (render (ui x)) then handleConnect_click ethereum x else idle x)"
| "step ethereum (Settled answer) x =
     (if 0 < pending x then handleConnect_settle answer x else idle x)"
| "step ethereum (Notification name pl) x = idle x"

text \<open>The event loop: each event is handled to its end before the next one.\<close>

fun steps :: "provider option \<Rightarrow> event list \<Rightarrow> session \<Rightarrow> session" where
  "steps ethereum [] x = x"
| "steps ethereum (e # es) x = steps ethereum es (after (step ethereum e x))"

subsection \<open>Sample providers\<close>

text \<open>
  Two concrete behaviours of the provider's \<^verbatim>\<open>request\<close>, for the examples: one resolves
  every request with the given accounts, one rejects as MetaMask does when the user
  denies access.
\<close>

definition granting :: "string list \<Rightarrow> request_args \<Rightarrow> error + string list" where
  "granting accs args = Inr accs"

definition denying :: "request_args \<Rightarrow> error + string list" where
  "denying args = Inl (ProviderRpcError 4001 ''User rejected the request.'')"

section \<open>The chain-id formatter\<close>

text \<open>
  The README's last listing imports \<^verbatim>\<open>formatChainAsNum\<close> from \<^verbatim>\<open>./utils\<close>; that file
  is not among the sources, and the README only says of it "we use parseInt". The
  formatter is therefore taken from the specification, section 4.4.
\<close>

text \<open>
  Modelled from the spec: the value of one hexadecimal digit of \<^verbatim>\<open>formatChainAsNum\<close>'s
  input (\<^verbatim>\<open>0-9\<close>, \<^verbatim>\<open>a-f\<close>, \<^verbatim>\<open>A-F\<close>); any other character is malformed.
\<close>

definition hexDigit :: "char \<Rightarrow> nat option" where
  "hexDigit c =
     (let n = (of_char c :: nat) in
      if 48 \<le> n \<and> n \<le> 57 then Some (n - 48)
      else if 97 \<le> n \<and> n \<le> 102 then Some (n - 87)
      else if 65 \<le> n \<and> n \<le> 70 then Some (n - 55)
      else None)"

text \<open>
  Modelled from the spec: the digits after the prefix of \<^verbatim>\<open>formatChainAsNum\<close>'s input,
  read left to right in base 16; a malformed digit fails the whole parse.
\<close>

fun parseHex :: "nat \<Rightarrow> string \<Rightarrow> nat option" where
  "parseHex acc [] = Some acc"
| "parseHex acc (c # cs) =
     (case hexDigit c of None \<Rightarrow> None | Some d \<Rightarrow> parseHex (16 * acc + d) cs)"

text \<open>
  Modelled from the spec: \<^verbatim>\<open>formatChainAsNum(hexChainId: string) -> number\<close> of the
  missing \<^verbatim>\<open>./utils\<close>, which "parses a 0x-prefixed hexadecimal string as a base-16
  integer. Fails (or returns a sentinel) on malformed input". Failure is \<open>None\<close>; an
  input is well-formed when it is \<^verbatim>\<open>0x\<close> followed by at least one hexadecimal digit.
\<close>

definition formatChainAsNum :: "string \<Rightarrow> nat option" where
  "formatChainAsNum hexChainId =
     (case hexChainId of
        c0 # cx # d # ds \<Rightarrow>
          (if c0 = CHR ''0'' \<and> cx = CHR ''x'' then parseHex 0 (d # ds) else None)
      | _ \<Rightarrow> None)"

text \<open>
  Modelled from the spec: what "base-16 integer" means for a list of digit values, written
  independently of the parser: the digit at distance \<open>i\<close> from the right end counts
  \<open>16 ^ i\<close>.
\<close>

definition hexValue :: "nat list \<Rightarrow> nat" where
  "hexValue ds = (\<Sum>i < length ds. rev ds ! i * 16 ^ i)"

section \<open>Facts shared by the proofs\<close>

lemma truthy_iff: "truthy h = (h = Some True)"
  by (cases h) auto

lemma hasButton_render: "hasButton (render s) = truthy (hasProvider s)"
  by (simp add: hasButton_def render_def)

lemma status_of_Connected: "(status_of s = Connected) = (accounts (wallet s) \<noteq> [])"
  by (simp add: status_of_def)

lemma status_of_Disconnected: "(status_of s = Disconnected) = (accounts (wallet s) = [])"
  by (simp add: status_of_def)

lemma status_of_updateWallet:
  "status_of (updateWallet accs s) = (if accs = [] then Disconnected else Connected)"
  by (simp add: status_of_def updateWallet_def)

lemma accounts_updateWallet: "accounts (wallet (updateWallet accs s)) = accs"
  by (simp add: updateWallet_def)

lemma handleConnect_click_only:
  assumes "accounts (wallet (ui x)) \<noteq> [] \<or> ethereum = None"
  shows "handleConnect ethereum (ui x)
       = \<lparr>after = ui (after (handleConnect_click ethereum x)),
          effects = effects (handleConnect_click ethereum x),
          thrown = thrown (handleConnect_click ethereum x)\<rparr>"
  using assms
  by (auto simp: handleConnect_def handleConnect_click_def)

lemma handleConnect_click_settle:
  assumes "accounts (wallet (ui x)) = []"
  shows "handleConnect (Some p) (ui x)
       = \<lparr>after = ui (after (handleConnect_settle (request p eth_requestAccounts)
                    (after (handleConnect_click (Some p) x)))),
          effects = effects (handleConnect_click (Some p) x)
                    @ effects (handleConnect_settle (request p eth_requestAccounts)
                        (after (handleConnect_click (Some p) x))),
          thrown = thrown (handleConnect_settle (request p eth_requestAccounts)
                    (after (handleConnect_click (Some p) x)))\<rparr>"
  using assms
  by (cases "request p eth_requestAccounts")
     (simp_all add: handleConnect_def handleConnect_click_def handleConnect_settle_def)

lemma hexValue_Cons: "hexValue (d # ds) = d * 16 ^ length ds + hexValue ds"
  by (simp add: hexValue_def nth_append)

lemma parseHex_digits:
  "list_all (\<lambda>c. hexDigit c \<noteq> None) cs \<Longrightarrow>
   parseHex acc cs = Some (acc * 16 ^ length cs + hexValue (map (\<lambda>c. the (hexDigit c)) cs))"
proof (induction cs arbitrary: acc)
  case Nil
  then show ?case by (simp add: hexValue_def)
next
  case (Cons c cs)
  then obtain d where d: "hexDigit c = Some d" by auto
  from Cons have "parseHex (16 * acc + d) cs
      = Some ((16 * acc + d) * 16 ^ length cs + hexValue (map (\<lambda>c. the (hexDigit c)) cs))"
    by simp
  with d show ?case
    by (simp add: hexValue_Cons algebra_simps)
qed

section \<open>Properties of the component\<close>

subsection \<open>Connecting\<close>

text \<open>
  C1. A successful connect: from a Disconnected state, when the provider resolves
  \<^verbatim>\<open>eth_requestAccounts\<close> with a non-empty list of addresses, \<^verbatim>\<open>handleConnect\<close> replaces
  \<^verbatim>\<open>wallet.accounts\<close> with exactly that list; \<^verbatim>\<open>accounts[0]\<close> is the first returned
  address and the state is Connected.
\<close>

theorem handleConnect_connects:
  assumes "status_of s = Disconnected"
    and "request p eth_requestAccounts = Inr accs"
    and "accs \<noteq> []"
  shows "accounts (wallet (after (handleConnect (Some p) s))) = accs
       \<and> accounts (wallet (after (handleConnect (Some p) s))) ! 0 = accs ! 0
       \<and> status_of (after (handleConnect (Some p) s)) = Connected
       \<and> thrown (handleConnect (Some p) s) = None"
  using assms
  by (simp add: handleConnect_def status_of_Disconnected status_of_updateWallet
      accounts_updateWallet)

text \<open>
  C1 at a concrete input: a provider that grants the single address \<^verbatim>\<open>0xabc\<close>.
\<close>

theorem handleConnect_connects_witness:
  "status_of \<lparr>hasProvider = Some True, wallet = initialState\<rparr> = Disconnected
   \<and> request \<lparr>isMetaMask = True, request = granting [''0xabc'']\<rparr> eth_requestAccounts
       = Inr [''0xabc'']
   \<and> [''0xabc''] \<noteq> []
   \<and> accounts (wallet (after (handleConnect
        (Some \<lparr>isMetaMask = True, request = granting [''0xabc'']\<rparr>)
        \<lparr>hasProvider = Some True, wallet = initialState\<rparr>))) ! 0
       = ''0xabc''
   \<and> status_of (after (handleConnect
        (Some \<lparr>isMetaMask = True, request = granting [''0xabc'']\<rparr>)
        \<lparr>hasProvider = Some True, wallet = initialState\<rparr>))
       = Connected"
proof -
  have d: "status_of \<lparr>hasProvider = Some True, wallet = initialState\<rparr> = Disconnected"
    by (simp add: status_of_def initialState_def)
  have r: "request \<lparr>isMetaMask = True, request = granting [''0xabc'']\<rparr> eth_requestAccounts
             = Inr [''0xabc'']"
    by (simp add: granting_def)
  have n: "[''0xabc''] \<noteq> []" by simp
  show ?thesis
    using d r n handleConnect_connects [OF d r n] by simp
qed

subsection \<open>The wallet-state machine\<close>

text \<open>
  C2, as stated, lists a transition from Connected to Disconnected on an
  \<^verbatim>\<open>accountsChanged\<close> notification with an empty list, and excludes every transition it
  does not list. The component has no such transition: with the account \<^verbatim>\<open>0xabc\<close>
  connected, that notification leaves it Connected. And it has a transition that is not
  listed: after two clicks on Connect, when the first request resolves with \<^verbatim>\<open>0xabc\<close>
  the state is Connected, and when the second then resolves with the empty list the state
  is Disconnected, without a click on Disconnect and without a notification.
\<close>

theorem listed_transitions_counterexample:
  "status_of (ui (after (step (Some \<lparr>isMetaMask = True, request = granting []\<rparr>)
       (Notification ''accountsChanged'' (AccountList []))
       \<lparr>ui = \<lparr>hasProvider = Some True, wallet = \<lparr>accounts = [''0xabc'']\<rparr>\<rparr>,
        pending = 0\<rparr>))) = Connected
   \<and> status_of (ui (steps (Some \<lparr>isMetaMask = True, request = granting []\<rparr>)
       [Click, Click, Settled (Inr [''0xabc''])]
       \<lparr>ui = \<lparr>hasProvider = Some True, wallet = initialState\<rparr>, pending = 0\<rparr>))
     = Connected
   \<and> status_of (ui (steps (Some \<lparr>isMetaMask = True, request = granting []\<rparr>)
       [Click, Click, Settled (Inr [''0xabc'']), Settled (Inr [])]
       \<lparr>ui = \<lparr>hasProvider = Some True, wallet = initialState\<rparr>, pending = 0\<rparr>))
     = Disconnected"
  by (simp add: idle_def status_of_def hasButton_def render_def initialState_def
      handleConnect_click_def handleConnect_settle_def updateWallet_def)

text \<open>
  C2, amended. The wallet is in one of two states, Disconnected (accounts empty) and
  Connected (accounts non-empty). Whenever something that happens to the component changes
  that state, it is one of two things. Either it is a click on the rendered button in a
  Connected state, which leads to Disconnected without any call of the provider. Or it is
  the successful answer to a pending \<^verbatim>\<open>eth_requestAccounts\<close> call, whose list becomes the
  accounts: a non-empty list leads from Disconnected to Connected, an empty list from
  Connected to Disconnected. A request becomes pending only by a click on the rendered
  button in a Disconnected state, which itself changes nothing in the state. Both the
  click transition and the connecting answer do occur. A provider notification
  (\<^verbatim>\<open>accountsChanged\<close> included) changes nothing and causes no call.
\<close>

theorem wallet_transitions:
  "(status_of (ui (after (step ethereum e x))) \<noteq> status_of (ui x) \<longrightarrow>
      ((e = Click \<and> hasProvider (ui x) = Some True
          \<and> status_of (ui x) = Connected
          \<and> status_of (ui (after (step ethereum e x))) = Disconnected
          \<and> effects (step ethereum e x) = [])
       \<or> (\<exists>accs. e = Settled (Inr accs) \<and> 0 < pending x
             \<and> accounts (wallet (ui (after (step ethereum e x)))) = accs
             \<and> effects (step ethereum e x) = []
             \<and> ((status_of (ui x) = Disconnected \<and> accs \<noteq> [])
                \<or> (status_of (ui x) = Connected \<and> accs = [])))))
   \<and> (pending x < pending (after (step ethereum e x)) \<longrightarrow>
        e = Click \<and> hasProvider (ui x) = Some True
        \<and> status_of (ui x) = Disconnected
        \<and> ui (after (step ethereum e x)) = ui x
        \<and> effects (step ethereum e x) = [Request eth_requestAccounts])
   \<and> (hasProvider (ui x) = Some True \<and> status_of (ui x) = Connected \<longrightarrow>
        status_of (ui (after (step ethereum Click x))) = Disconnected)
   \<and> (0 < pending x \<and> granted \<noteq> [] \<longrightarrow>
        status_of (ui (after (step ethereum (Settled (Inr granted)) x))) = Connected)
   \<and> after (step ethereum (Notification name pl) x) = x
   \<and> effects (step ethereum (Notification name pl) x) = []"
proof -
  have classified: "(e = Click \<and> hasProvider (ui x) = Some True
          \<and> status_of (ui x) = Connected
          \<and> status_of (ui (after (step ethereum e x))) = Disconnected
          \<and> effects (step ethereum e x) = [])
       \<or> (\<exists>accs. e = Settled (Inr accs) \<and> 0 < pending x
             \<and> accounts (wallet (ui (after (step ethereum e x)))) = accs
             \<and> effects (step ethereum e x) = []
             \<and> ((status_of (ui x) = Disconnected \<and> accs \<noteq> [])
                \<or> (status_of (ui x) = Connected \<and> accs = [])))"
    if changed: "status_of (ui (after (step ethereum e x))) \<noteq> status_of (ui x)"
  proof (cases e)
    case (DetectionResolved detected)
    with changed show ?thesis
      by (simp add: getProvider_def status_of_def)
  next
    case Click
    show ?thesis
    proof (cases "hasProvider (ui x) = Some True")
      case False
      with Click changed show ?thesis
        by (simp add: hasButton_render truthy_iff idle_def)
    next
      case True
      with Click have run: "step ethereum e x = handleConnect_click ethereum x"
        by (simp add: hasButton_render truthy_iff)
      show ?thesis
      proof (cases "accounts (wallet (ui x)) = []")
        case True
        then have "ui (after (handleConnect_click ethereum x)) = ui x"
          by (simp add: handleConnect_click_def split: option.splits)
        with changed run show ?thesis by simp
      next
        case False
        then have "after (handleConnect_click ethereum x) = x\<lparr>ui := updateWallet [] (ui x)\<rparr>"
          and "effects (handleConnect_click ethereum x) = []"
          by (simp_all add: handleConnect_click_def)
        with False Click run \<open>hasProvider (ui x) = Some True\<close> show ?thesis
          by (simp add: status_of_Connected status_of_updateWallet)
      qed
    qed
  next
    case (Settled answer)
    show ?thesis
    proof (cases "0 < pending x")
      case False
      with Settled changed show ?thesis
        by (simp add: idle_def)
    next
      case True
      with Settled have run: "step ethereum e x = handleConnect_settle answer x"
        by simp
      show ?thesis
      proof (cases answer)
        case (Inl err)
        then have "ui (after (handleConnect_settle answer x)) = ui x"
          by (simp add: handleConnect_settle_def)
        with changed run show ?thesis by simp
      next
        case (Inr accs)
        then have a: "ui (after (handleConnect_settle answer x)) = updateWallet accs (ui x)"
          and f: "effects (handleConnect_settle answer x) = []"
          by (simp_all add: handleConnect_settle_def)
        from changed run a have
          "(status_of (ui x) = Disconnected \<and> accs \<noteq> [])
           \<or> (status_of (ui x) = Connected \<and> accs = [])"
          by (cases "status_of (ui x)")
             (auto simp: status_of_updateWallet split: if_splits)
        with Settled Inr True run a f show ?thesis
          by (simp add: accounts_updateWallet)
      qed
    qed
  next
    case (Notification name pl)
    with changed show ?thesis
      by (simp add: idle_def)
  qed
  have issued: "e = Click \<and> hasProvider (ui x) = Some True
        \<and> status_of (ui x) = Disconnected
        \<and> ui (after (step ethereum e x)) = ui x
        \<and> effects (step ethereum e x) = [Request eth_requestAccounts]"
    if more: "pending x < pending (after (step ethereum e x))"
  proof (cases e)
    case (DetectionResolved detected)
    with more show ?thesis by simp
  next
    case Click
    with more show ?thesis
      by (auto simp: hasButton_render truthy_iff idle_def handleConnect_click_def
          status_of_Disconnected split: if_splits option.splits)
  next
    case (Settled answer)
    with more show ?thesis
      by (auto simp: idle_def handleConnect_settle_def split: if_splits sum.splits)
  next
    case (Notification name pl)
    with more show ?thesis by (simp add: idle_def)
  qed
  have disconnects: "status_of (ui (after (step ethereum Click x))) = Disconnected"
    if "hasProvider (ui x) = Some True \<and> status_of (ui x) = Connected"
    using that
    by (simp add: hasButton_render handleConnect_click_def status_of_Connected
        status_of_updateWallet)
  have connects:
    "status_of (ui (after (step ethereum (Settled (Inr granted)) x))) = Connected"
    if "0 < pending x \<and> granted \<noteq> []"
    using that
    by (simp add: handleConnect_settle_def status_of_updateWallet)
  have ignored: "after (step ethereum (Notification name pl) x) = x"
    "effects (step ethereum (Notification name pl) x) = []"
    by (simp_all add: idle_def)
  from classified issued disconnects connects ignored show ?thesis
    by blast
qed

text \<open>
  C2 amended, at concrete inputs: a click in a Connected state; a click in a Disconnected
  state, which leaves a request pending; the answer \<^verbatim>\<open>0xabc\<close> to that request.
\<close>

theorem wallet_transitions_witness:
  "status_of (ui (after (step None Click
       \<lparr>ui = \<lparr>hasProvider = Some True, wallet = \<lparr>accounts = [''0xabc'']\<rparr>\<rparr>, pending = 0\<rparr>)))
     \<noteq> status_of \<lparr>hasProvider = Some True, wallet = \<lparr>accounts = [''0xabc'']\<rparr>\<rparr>
   \<and> status_of (ui (after (step None Click
       \<lparr>ui = \<lparr>hasProvider = Some True, wallet = \<lparr>accounts = [''0xabc'']\<rparr>\<rparr>, pending = 0\<rparr>)))
     = Disconnected
   \<and> effects (step None Click
       \<lparr>ui = \<lparr>hasProvider = Some True, wallet = \<lparr>accounts = [''0xabc'']\<rparr>\<rparr>, pending = 0\<rparr>)
     = []
   \<and> pending \<lparr>ui = \<lparr>hasProvider = Some True, wallet = initialState\<rparr>, pending = 0\<rparr>
     < pending (after (step (Some \<lparr>isMetaMask = True, request = granting [''0xabc'']\<rparr>) Click
         \<lparr>ui = \<lparr>hasProvider = Some True, wallet = initialState\<rparr>, pending = 0\<rparr>))
   \<and> effects (step (Some \<lparr>isMetaMask = True, request = granting [''0xabc'']\<rparr>) Click
         \<lparr>ui = \<lparr>hasProvider = Some True, wallet = initialState\<rparr>, pending = 0\<rparr>)
     = [Request eth_requestAccounts]
   \<and> status_of (ui (after (step None (Settled (Inr [''0xabc'']))
       \<lparr>ui = \<lparr>hasProvider = Some True, wallet = initialState\<rparr>, pending = 1\<rparr>)))
     = Connected"
proof -
  let ?c = "\<lparr>ui = \<lparr>hasProvider = Some True, wallet = \<lparr>accounts = [''0xabc'']\<rparr>\<rparr>,
             pending = 0\<rparr>"
  let ?d = "\<lparr>ui = \<lparr>hasProvider = Some True, wallet = initialState\<rparr>, pending = 0\<rparr>"
  let ?w = "\<lparr>ui = \<lparr>hasProvider = Some True, wallet = initialState\<rparr>, pending = 1\<rparr>"
  let ?p = "\<lparr>isMetaMask = True, request = granting [''0xabc'']\<rparr>"
  have changed: "status_of (ui (after (step None Click ?c))) \<noteq> status_of (ui ?c)"
    by (simp add: status_of_def hasButton_def render_def handleConnect_click_def
        updateWallet_def)
  have c: "hasProvider (ui ?c) = Some True \<and> status_of (ui ?c) = Connected"
    by (simp add: status_of_def)
  have more: "pending ?d < pending (after (step (Some ?p) Click ?d))"
    by (simp add: hasButton_def render_def handleConnect_click_def initialState_def)
  have w: "0 < pending ?w \<and> [''0xabc''] \<noteq> []"
    by simp
  note t1 = wallet_transitions [where ethereum = None and e = Click and x = ?c]
  note t2 = wallet_transitions [where ethereum = "Some ?p" and e = Click and x = ?d]
  note t3 = wallet_transitions [where ethereum = None and x = ?w and granted = "[''0xabc'']"]
  from t1 changed c have
    "status_of (ui (after (step None Click ?c))) = Disconnected
     \<and> effects (step None Click ?c) = []"
    by blast
  moreover from t2 more have
    "effects (step (Some ?p) Click ?d) = [Request eth_requestAccounts]"
    by blast
  moreover from t3 w have
    "status_of (ui (after (step None (Settled (Inr [''0xabc''])) ?w))) = Connected"
    by blast
  ultimately show ?thesis
    using changed more by simp
qed

subsection \<open>Disconnecting\<close>

text \<open>
  C3. In every Connected state, \<^verbatim>\<open>handleConnect\<close> takes its first branch: the accounts
  become the empty list, \<^verbatim>\<open>hasProvider\<close> keeps its value, and no request of any kind
  goes to the provider, whatever \<^verbatim>\<open>window.ethereum\<close> is.
\<close>

theorem handleConnect_disconnects:
  assumes "status_of s = Connected"
  shows "after (handleConnect ethereum s) = s\<lparr>wallet := \<lparr>accounts = []\<rparr>\<rparr>
       \<and> hasProvider (after (handleConnect ethereum s)) = hasProvider s
       \<and> status_of (after (handleConnect ethereum s)) = Disconnected
       \<and> effects (handleConnect ethereum s) = []
       \<and> thrown (handleConnect ethereum s) = None"
proof -
  from assms have "accounts (wallet s) \<noteq> []"
    by (simp add: status_of_Connected)
  then have "handleConnect ethereum s
      = \<lparr>after = updateWallet [] s, effects = [], thrown = None\<rparr>"
    by (simp add: handleConnect_def)
  then show ?thesis
    by (simp add: updateWallet_def status_of_def)
qed

text \<open>
  C3 at a concrete input: two accounts connected.
\<close>

theorem handleConnect_disconnects_witness:
  "status_of \<lparr>hasProvider = Some True, wallet = \<lparr>accounts = [''0xabc'', ''0xdef'']\<rparr>\<rparr>
     = Connected
   \<and> after (handleConnect (Some \<lparr>isMetaMask = True, request = granting [''0xabc'']\<rparr>)
        \<lparr>hasProvider = Some True, wallet = \<lparr>accounts = [''0xabc'', ''0xdef'']\<rparr>\<rparr>)
     = \<lparr>hasProvider = Some True, wallet = \<lparr>accounts = []\<rparr>\<rparr>
   \<and> effects (handleConnect (Some \<lparr>isMetaMask = True, request = granting [''0xabc'']\<rparr>)
        \<lparr>hasProvider = Some True, wallet = \<lparr>accounts = [''0xabc'', ''0xdef'']\<rparr>\<rparr>)
     = []"
proof -
  have c: "status_of \<lparr>hasProvider = Some True, wallet = \<lparr>accounts = [''0xabc'', ''0xdef'']\<rparr>\<rparr>
      = Connected"
    by (simp add: status_of_def)
  show ?thesis
    using c handleConnect_disconnects [OF c,
        of "Some \<lparr>isMetaMask = True, request = granting [''0xabc'']\<rparr>"]
    by simp
qed

subsection \<open>A rejected request\<close>

text \<open>
  C4. In every Disconnected state, when the provider rejects \<^verbatim>\<open>eth_requestAccounts\<close>,
  the handler's promise rejects with the provider's reason (nothing catches it) and the
  state is what it was: the accounts are still the empty list.
\<close>

theorem handleConnect_rejected:
  assumes "status_of s = Disconnected"
    and "request p eth_requestAccounts = Inl err"
  shows "thrown (handleConnect (Some p) s) = Some err
       \<and> after (handleConnect (Some p) s) = s
       \<and> accounts (wallet (after (handleConnect (Some p) s))) = []
       \<and> effects (handleConnect (Some p) s) = [Request eth_requestAccounts]"
  using assms
  by (simp add: handleConnect_def status_of_Disconnected)

text \<open>
  C4 at a concrete input: the user denies access (code 4001).
\<close>

theorem handleConnect_rejected_witness:
  "status_of App_mounting = Disconnected
   \<and> request \<lparr>isMetaMask = True, request = denying\<rparr> eth_requestAccounts
       = Inl (ProviderRpcError 4001 ''User rejected the request.'')
   \<and> thrown (handleConnect (Some \<lparr>isMetaMask = True, request = denying\<rparr>) App_mounting)
       = Some (ProviderRpcError 4001 ''User rejected the request.'')
   \<and> after (handleConnect (Some \<lparr>isMetaMask = True, request = denying\<rparr>) App_mounting)
       = App_mounting
   \<and> accounts (wallet (after (handleConnect (Some \<lparr>isMetaMask = True, request = denying\<rparr>)
        App_mounting))) = []"
proof -
  have d: "status_of App_mounting = Disconnected"
    by (simp add: status_of_def App_mounting_def initialState_def)
  have r: "request \<lparr>isMetaMask = True, request = denying\<rparr> eth_requestAccounts
      = Inl (ProviderRpcError 4001 ''User rejected the request.'')"
    by (simp add: denying_def)
  show ?thesis
    using d r handleConnect_rejected [OF d r] by (simp add: status_of_Disconnected)
qed

subsection \<open>The button\<close>

text \<open>
  C5. In every state whose \<^verbatim>\<open>hasProvider\<close> is not \<^verbatim>\<open>true\<close> (\<^verbatim>\<open>false\<close> or \<^verbatim>\<open>null\<close>),
  the view has no button, whatever the wallet holds.
\<close>

theorem no_button_without_provider:
  assumes "hasProvider s \<noteq> Some True"
  shows "\<not> hasButton (render s) \<and> Button l \<notin> set (render s)"
  using assms
  by (simp add: hasButton_render truthy_iff) (simp add: render_def truthy_iff)

text \<open>
  C5 at a concrete input: no provider, yet an account in the wallet.
\<close>

theorem no_button_without_provider_witness:
  "hasProvider \<lparr>hasProvider = Some False, wallet = \<lparr>accounts = [''0xabc'']\<rparr>\<rparr> \<noteq> Some True
   \<and> \<not> hasButton (render \<lparr>hasProvider = Some False, wallet = \<lparr>accounts = [''0xabc'']\<rparr>\<rparr>)
   \<and> Button ''Disconnect MetaMask''
       \<notin> set (render \<lparr>hasProvider = Some False, wallet = \<lparr>accounts = [''0xabc'']\<rparr>\<rparr>)"
proof -
  have h: "hasProvider \<lparr>hasProvider = Some False, wallet = \<lparr>accounts = [''0xabc'']\<rparr>\<rparr>
      \<noteq> Some True"
    by simp
  show ?thesis
    using h no_button_without_provider [OF h, of "''Disconnect MetaMask''"] by simp
qed

text \<open>
  C6, as stated, makes the button appear exactly when \<^verbatim>\<open>provider.isMetaMask\<close> is true.
  A detected provider whose \<^verbatim>\<open>isMetaMask\<close> is false gets the button all the same.
\<close>

theorem isMetaMask_gate_counterexample:
  "hasButton (render (after (getProvider
       (Some \<lparr>isMetaMask = False, request = granting [''0xabc'']\<rparr>) App_mounting)))
   \<and> \<not> isMetaMask \<lparr>isMetaMask = False, request = granting [''0xabc'']\<rparr>"
  by (simp add: hasButton_def render_def getProvider_def Boolean_def App_mounting_def
      initialState_def)

text \<open>
  C6, amended. App.tsx does not read \<^verbatim>\<open>isMetaMask\<close>. The button is rendered exactly
  when \<^verbatim>\<open>hasProvider\<close> is \<^verbatim>\<open>true\<close>; after the mount effect that is exactly when the
  detection found a provider, whatever the provider's \<^verbatim>\<open>isMetaMask\<close> is.
\<close>

theorem button_gated_by_hasProvider:
  "hasButton (render s) = (hasProvider s = Some True)
   \<and> hasButton (render (after (getProvider detected s))) = (detected \<noteq> None)
   \<and> hasButton (render (after (getProvider (Some (p\<lparr>isMetaMask := b\<rparr>)) s)))"
  by (simp add: hasButton_render truthy_iff getProvider_def Boolean_def split: option.splits)

subsection \<open>Mounting\<close>

text \<open>
  C7, as stated, has the mount effect fetch the current accounts and chain, store them
  and subscribe to the two notifications when a provider is present. With a provider
  present that would answer \<^verbatim>\<open>eth_accounts\<close> with \<^verbatim>\<open>0xabc\<close>, the mount effect of
  App.tsx only runs the detection: no request is made and the accounts stay empty.
\<close>

theorem mount_fetch_counterexample:
  "request \<lparr>isMetaMask = True, request = granting [''0xabc'']\<rparr>
       \<lparr>rpc_method = ''eth_accounts''\<rparr> = Inr [''0xabc'']
   \<and> effects (getProvider (Some \<lparr>isMetaMask = True, request = granting [''0xabc'']\<rparr>)
        App_mounting) = [DetectProvider]
   \<and> accounts (wallet (after (getProvider
        (Some \<lparr>isMetaMask = True, request = granting [''0xabc'']\<rparr>) App_mounting))) = []"
  by (simp add: getProvider_def App_mounting_def initialState_def granting_def)

text \<open>
  C7, amended. The mount effect runs the provider detection once and stores in
  \<^verbatim>\<open>hasProvider\<close> whether a provider was found. Whether or not one was found, it makes no
  request to the provider, subscribes to no notification and leaves the wallet state as
  it was (at mount: the initial state, accounts empty).
\<close>

theorem getProvider_only_detects:
  "effects (getProvider detected s) = [DetectProvider]
   \<and> hasProvider (after (getProvider detected s)) = Some (detected \<noteq> None)
   \<and> wallet (after (getProvider detected s)) = wallet s
   \<and> thrown (getProvider detected s) = None
   \<and> wallet (after (getProvider detected App_mounting)) = initialState
   \<and> Request r \<notin> set (effects (getProvider detected s))
   \<and> Subscribe name \<notin> set (effects (getProvider detected s))"
  by (simp add: getProvider_def Boolean_def App_mounting_def split: option.splits)

text \<open>
  C10. Before the detection has resolved \<^verbatim>\<open>hasProvider\<close> is \<^verbatim>\<open>null\<close>; the view of that
  initial state is the single line "Injected Provider DOES NOT Exist", without a button;
  and with any wallet, the view for \<^verbatim>\<open>null\<close> is the view for \<^verbatim>\<open>false\<close>.
\<close>

theorem undetermined_rendered_as_absent:
  "hasProvider App_mounting = None
   \<and> render App_mounting = [Div ''Injected Provider DOES NOT Exist'']
   \<and> \<not> hasButton (render App_mounting)
   \<and> render (s\<lparr>hasProvider := None\<rparr>) = render (s\<lparr>hasProvider := Some False\<rparr>)"
  by (simp add: App_mounting_def initialState_def render_def hasButton_def)

subsection \<open>A change of chain\<close>

text \<open>
  C8, as stated, has a \<^verbatim>\<open>chainChanged\<close> event patch the \<^verbatim>\<open>chainId\<close> field of the wallet
  state. In App.tsx the wallet state is \<^verbatim>\<open>{ accounts }\<close> alone and no callback is
  registered for \<^verbatim>\<open>chainChanged\<close>: with \<^verbatim>\<open>0xabc\<close> connected, the event for chain
  \<^verbatim>\<open>0x89\<close> leaves the state exactly as it was, and the view after it shows the provider
  line, the Disconnect button and the account, and no chain id.
\<close>

theorem chainChanged_counterexample:
  "after (step (Some \<lparr>isMetaMask = True, request = granting [''0xabc'']\<rparr>)
       (Notification ''chainChanged'' (ChainIdHex ''0x89''))
       \<lparr>ui = \<lparr>hasProvider = Some True, wallet = \<lparr>accounts = [''0xabc'']\<rparr>\<rparr>, pending = 0\<rparr>)
     = \<lparr>ui = \<lparr>hasProvider = Some True, wallet = \<lparr>accounts = [''0xabc'']\<rparr>\<rparr>, pending = 0\<rparr>
   \<and> render (ui (after (step (Some \<lparr>isMetaMask = True, request = granting [''0xabc'']\<rparr>)
       (Notification ''chainChanged'' (ChainIdHex ''0x89''))
       \<lparr>ui = \<lparr>hasProvider = Some True, wallet = \<lparr>accounts = [''0xabc'']\<rparr>\<rparr>,
        pending = 0\<rparr>)))
     = [Div ''Injected Provider DOES Exist'', Button ''Disconnect MetaMask'',
        Div ''Wallet Accounts: 0xabc'']"
  by (simp add: idle_def render_def)

text \<open>
  C8, amended. For every Connected state, a \<^verbatim>\<open>chainChanged\<close> event with a new chain id
  is not handled by the component: the whole state is exactly as it was before the event,
  the accounts list in particular, the view is the same, and no request goes to the
  provider, so nothing is fetched again.
\<close>

theorem chainChanged_not_handled:
  assumes "status_of (ui x) = Connected"
  shows "after (step ethereum (Notification ''chainChanged'' (ChainIdHex c)) x) = x
       \<and> accounts (wallet (ui (after
            (step ethereum (Notification ''chainChanged'' (ChainIdHex c)) x))))
         = accounts (wallet (ui x))
       \<and> render (ui (after (step ethereum (Notification ''chainChanged'' (ChainIdHex c)) x)))
         = render (ui x)
       \<and> effects (step ethereum (Notification ''chainChanged'' (ChainIdHex c)) x) = []
       \<and> thrown (step ethereum (Notification ''chainChanged'' (ChainIdHex c)) x) = None"
  by (simp add: idle_def)

text \<open>C8 amended, at a concrete input: from chain \<^verbatim>\<open>0x1\<close> to chain \<^verbatim>\<open>0x89\<close>.\<close>

theorem chainChanged_not_handled_witness:
  "status_of (ui \<lparr>ui = \<lparr>hasProvider = Some True, wallet = \<lparr>accounts = [''0xabc'']\<rparr>\<rparr>,
       pending = 0\<rparr>) = Connected
   \<and> after (step None (Notification ''chainChanged'' (ChainIdHex ''0x89''))
       \<lparr>ui = \<lparr>hasProvider = Some True, wallet = \<lparr>accounts = [''0xabc'']\<rparr>\<rparr>, pending = 0\<rparr>)
     = \<lparr>ui = \<lparr>hasProvider = Some True, wallet = \<lparr>accounts = [''0xabc'']\<rparr>\<rparr>, pending = 0\<rparr>
   \<and> effects (step None (Notification ''chainChanged'' (ChainIdHex ''0x89''))
       \<lparr>ui = \<lparr>hasProvider = Some True, wallet = \<lparr>accounts = [''0xabc'']\<rparr>\<rparr>, pending = 0\<rparr>)
     = []"
proof -
  have c: "status_of (ui \<lparr>ui = \<lparr>hasProvider = Some True,
      wallet = \<lparr>accounts = [''0xabc'']\<rparr>\<rparr>, pending = 0\<rparr>) = Connected"
    by (simp add: status_of_def)
  show ?thesis
    using c chainChanged_not_handled [OF c, of None "''0x89''"] by simp
qed

section \<open>Properties of the chain-id formatter\<close>

text \<open>
  C9. \<^verbatim>\<open>formatChainAsNum\<close> reads \<^verbatim>\<open>0x\<close> followed by hexadecimal digits as the base-16
  number those digits write; in particular \<^verbatim>\<open>0x1\<close> is 1 and \<^verbatim>\<open>0x89\<close> is 137.
\<close>

theorem formatChainAsNum_base16:
  assumes "cs \<noteq> []"
    and "list_all (\<lambda>c. hexDigit c \<noteq> None) cs"
  shows "formatChainAsNum (''0x'' @ cs) = Some (hexValue (map (\<lambda>c. the (hexDigit c)) cs))
       \<and> formatChainAsNum ''0x1'' = Some 1
       \<and> formatChainAsNum ''0x89'' = Some 137"
proof -
  from assms(1) obtain d ds where cs: "cs = d # ds"
    by (cases cs) auto
  have "formatChainAsNum (''0x'' @ cs) = parseHex 0 cs"
    by (simp add: formatChainAsNum_def cs)
  with assms(2) have general:
    "formatChainAsNum (''0x'' @ cs) = Some (hexValue (map (\<lambda>c. the (hexDigit c)) cs))"
    by (simp add: parseHex_digits)
  have one: "formatChainAsNum ''0x1'' = Some 1"
    by (simp add: formatChainAsNum_def hexDigit_def)
  have polygon: "formatChainAsNum ''0x89'' = Some 137"
    by (simp add: formatChainAsNum_def hexDigit_def)
  from general one polygon show ?thesis by simp
qed

text \<open>
  C9 at a concrete input: the digits \<^verbatim>\<open>89\<close>.
\<close>

theorem formatChainAsNum_base16_witness:
  "''89'' \<noteq> []
   \<and> list_all (\<lambda>c. hexDigit c \<noteq> None) ''89''
   \<and> hexValue (map (\<lambda>c. the (hexDigit c)) ''89'') = 8 * 16 + 9
   \<and> formatChainAsNum (''0x'' @ ''89'') = Some 137"
proof -
  have n: "''89'' \<noteq> []" by simp
  have h: "list_all (\<lambda>c. hexDigit c \<noteq> None) ''89''"
    by (simp add: hexDigit_def)
  have v: "hexValue (map (\<lambda>c. the (hexDigit c)) ''89'') = 8 * 16 + 9"
    by (simp add: hexValue_def hexDigit_def lessThan_Suc numeral_2_eq_2)
  show ?thesis
    using n h v formatChainAsNum_base16 [OF n h] by simp
qed

end
